theory Spec2Isabelle
  imports Main
begin

section \<open>The tracking controller of src/background.js\<close>

text \<open>
  The background script keeps five module-level variables and reacts to browser events.
  The model is a record of those variables together with the part of the host that the
  script can observe: the wall clock read by \<^verbatim>\<open>Date.now()\<close>, the two keys of
  \<^verbatim>\<open>chrome.storage.local\<close>, the interval timers that are armed, the queue of suspended
  \<^verbatim>\<open>async\<close> continuations, and the rejections nobody handles.

  Times are integers in milliseconds. \<^verbatim>\<open>Math.floor((now - lastUpdateTime) / 60000)\<close> is
  \<open>(now - lastUpdateTime) div 60000\<close>: both round towards minus infinity, and the
  double-precision quotient has the same floor as the exact one for every difference below
  \<open>2^53\<close> milliseconds whose quotient is below \<open>2^37\<close>, far beyond any value of the clock.

  A stored total is a number of the language, that is, a double; its values here are the
  integers a double can hold, and adding to it rounds as the double addition does.
\<close>

subsection \<open>Data\<close>

type_synonym platforms = "string \<rightharpoonup> bool"

record site =
  hostname :: string
  name :: string

record entry =
  entry_name :: string
  totalMinutes :: int

type_synonym time_data = "string \<rightharpoonup> entry"

text \<open>The controller reads one field of the persisted settings object.\<close>

record settings =
  settings_enabledPlatforms :: "platforms option"

datatype js_error = TypeError

text \<open>
  \<^verbatim>\<open>updateTime\<close> is an \<^verbatim>\<open>async\<close> function with two \<^verbatim>\<open>await\<close>s. A call runs up to the first
  one and suspends; what is left is a continuation that holds the two local constants
  \<^verbatim>\<open>now\<close> and \<^verbatim>\<open>elapsedMinutes\<close> and the \<^verbatim>\<open>timeData\<close> the read returns (after the read), or
  \<^verbatim>\<open>now\<close> alone (after the write). The storage serves its requests in the order in which
  they are issued, so what a read returns is the content at the time of the call.
\<close>

datatype task = AfterGet int int "time_data option" | AfterSet int

record tab =
  tab_id :: nat
  tab_url :: "string option"

record state =
  activeTabId :: "nat option"
  currentSite :: "site option"
  lastUpdateTime :: int
  intervalId :: "nat option"
  enabledPlatforms :: platforms
  clock :: int
  timeData :: "time_data option"
  stored_settings :: "settings option"
  timers :: "nat list"
  nextTimer :: nat
  pending :: "task list"
  errors :: "js_error list"

definition TRACKED_SITES :: "site list" where
  "TRACKED_SITES =
     [\<lparr>hostname = ''axiom.trade'', name = ''Axiom''\<rparr>,
      \<lparr>hostname = ''trade.padre.gg'', name = ''Terminal''\<rparr>,
      \<lparr>hostname = ''gmgn.ai'', name = ''Gmgn''\<rparr>]"

definition DEFAULT_enabledPlatforms :: platforms where
  "DEFAULT_enabledPlatforms =
     [''axiom.trade'' \<mapsto> True, ''trade.padre.gg'' \<mapsto> False, ''gmgn.ai'' \<mapsto> False]"

definition DEFAULT_SETTINGS :: settings where
  "DEFAULT_SETTINGS = \<lparr>settings_enabledPlatforms = Some DEFAULT_enabledPlatforms\<rparr>"

subsection \<open>getTrackedSite\<close>

text \<open>
  \<^verbatim>\<open>new URL(url).hostname\<close> is the platform's parser, not code of the repository: it is the
  parameter \<open>parseURL\<close>, which gives the hostname or the \<^verbatim>\<open>TypeError\<close> the constructor
  throws. A url is \<open>None\<close> when the tab has none (\<^verbatim>\<open>undefined\<close>); \<^verbatim>\<open>!url\<close> also holds for
  the empty string. \<open>getTrackedSite_try\<close> is the body of the \<^verbatim>\<open>try\<close> block, and
  \<open>getTrackedSite\<close> the whole function with its \<^verbatim>\<open>catch\<close>.
\<close>

definition getTrackedSite_try ::
  "(string \<Rightarrow> js_error + string) \<Rightarrow> platforms \<Rightarrow> string \<Rightarrow> js_error + site option" where
  "getTrackedSite_try parseURL ep u =
     (case parseURL u of
        Inl e \<Rightarrow> Inl e
      | Inr h \<Rightarrow>
          (case find (\<lambda>site. h = hostname site) TRACKED_SITES of
             None \<Rightarrow> Inr None
           | Some site \<Rightarrow>
               if ep (hostname site) = Some True then Inr (Some site) else Inr None))"

definition getTrackedSite ::
  "(string \<Rightarrow> js_error + string) \<Rightarrow> platforms \<Rightarrow> string option \<Rightarrow> js_error + site option" where
  "getTrackedSite parseURL ep url =
     (case url of
        None \<Rightarrow> Inr None
      | Some u \<Rightarrow>
          if u = [] then Inr None
          else (case getTrackedSite_try parseURL ep u of
                  Inl e \<Rightarrow> Inr None
                | Inr r \<Rightarrow> Inr r))"

subsection \<open>Numbers\<close>

text \<open>
  \<^verbatim>\<open>totalMinutes += elapsedMinutes\<close> adds two doubles. Both hold integers, so the exact sum
  is an integer \<open>x\<close>, and the result is the double nearest to \<open>x\<close>, ties going to the even
  significand. Up to \<open>2^53\<close> in magnitude every integer is a double; from \<open>2^(52+d)\<close> up
  to \<open>2^(53+d)\<close> the doubles are the multiples of \<open>2^d\<close>. \<open>dexp m\<close> is that \<open>d\<close> for the
  magnitude \<open>m\<close>. Sums of magnitude \<open>2^1024\<close> and more, which give \<^verbatim>\<open>Infinity\<close>, are outside
  the model.
\<close>

fun dexp :: "nat \<Rightarrow> nat" where
  "dexp m = (if m < 2 ^ 53 then 0 else Suc (dexp (m div 2)))"

declare dexp.simps [simp del]

definition round_half_even :: "int \<Rightarrow> int \<Rightarrow> int" where
  "round_half_even x u =
     (let q = x div u; r = x mod u
      in if 2 * r < u then q * u
         else if u < 2 * r then (q + 1) * u
         else if even q then q * u else (q + 1) * u)"

definition to_double :: "int \<Rightarrow> int" where
  "to_double x = round_half_even x (2 ^ dexp (nat \<bar>x\<bar>))"

definition js_add :: "int \<Rightarrow> int \<Rightarrow> int" where
  "js_add a b = to_double (a + b)"

subsection \<open>updateTime\<close>

text \<open>
  The call: nothing without a current site; otherwise the clock is read, the whole minutes
  are computed and, when there is at least one, the storage read is issued and the function
  suspends. The read is answered later, with the \<^verbatim>\<open>timeData\<close> stored now.
\<close>

definition updateTime :: "state \<Rightarrow> state" where
  "updateTime st =
     (case currentSite st of
        None \<Rightarrow> st
      | Some _ \<Rightarrow>
          (let now = clock st;
               elapsedMinutes = (now - lastUpdateTime st) div 60000
           in if elapsedMinutes \<ge> 1
              then st\<lparr>pending := pending st @ [AfterGet now elapsedMinutes (timeData st)]\<rparr>
              else st))"

text \<open>
  After the read: \<open>data\<close> is what the read returned, while \<^verbatim>\<open>currentSite\<close> is the module
  variable as it is now, not as it was at the call. Reading \<^verbatim>\<open>.hostname\<close> of \<^verbatim>\<open>null\<close>
  throws; the promise of the call is rejected, nobody awaits it, and nothing is written.
  \<open>timeData_or_empty\<close> is \<^verbatim>\<open>data.timeData || {}\<close>. The entry is there when the minutes are
  added to it (the line before creates it), so the \<open>None\<close> branch of \<open>td2\<close> is never
  taken. The whole object, changed in the one entry, replaces what is stored.
\<close>

definition timeData_or_empty :: "time_data option \<Rightarrow> time_data" where
  "timeData_or_empty td = (case td of None \<Rightarrow> Map.empty | Some d \<Rightarrow> d)"

definition updateTime_afterGet ::
  "int \<Rightarrow> int \<Rightarrow> time_data option \<Rightarrow> state \<Rightarrow> state" where
  "updateTime_afterGet now elapsedMinutes data st =
     (let td = timeData_or_empty data
      in case currentSite st of
           None \<Rightarrow> st\<lparr>errors := errors st @ [TypeError]\<rparr>
         | Some cs \<Rightarrow>
             (let td1 = (case td (hostname cs) of
                           None \<Rightarrow> td(hostname cs \<mapsto> \<lparr>entry_name = name cs, totalMinutes = 0\<rparr>)
                         | Some _ \<Rightarrow> td);
                  td2 = (case td1 (hostname cs) of
                           None \<Rightarrow> td1
                         | Some e \<Rightarrow>
                             td1(hostname cs \<mapsto>
                                   e\<lparr>totalMinutes := js_add (totalMinutes e) elapsedMinutes\<rparr>))
              in st\<lparr>timeData := Some td2, pending := pending st @ [AfterSet now]\<rparr>))"

definition updateTime_afterSet :: "int \<Rightarrow> state \<Rightarrow> state" where
  "updateTime_afterSet now st = st\<lparr>lastUpdateTime := now\<rparr>"

fun resume :: "task \<Rightarrow> state \<Rightarrow> state" where
  "resume (AfterGet now elapsedMinutes data) st = updateTime_afterGet now elapsedMinutes data st"
| "resume (AfterSet now) st = updateTime_afterSet now st"

text \<open>
  \<open>settle\<close> runs the suspended continuations, oldest first, until none is left. A
  continuation never runs before the synchronous code that created it has returned to the
  event loop; \<open>settle\<close> is therefore applied after a whole event handler. It describes
  the schedule in which the storage answers before the next event is delivered; the event
  loop below also has the schedules in which it does not.
\<close>

fun task_weight :: "task \<Rightarrow> nat" where
  "task_weight (AfterGet _ _ _) = 2"
| "task_weight (AfterSet _) = 1"

function settle :: "state \<Rightarrow> state" where
  "settle st =
     (case pending st of
        [] \<Rightarrow> st
      | t # ts \<Rightarrow> settle (resume t (st\<lparr>pending := ts\<rparr>)))"
  by pat_completeness auto
termination
proof (relation "measure (\<lambda>st. sum_list (map task_weight (pending st)))")
  show "wf (measure (\<lambda>st. sum_list (map task_weight (pending st))))"
    by simp
next
  fix st :: state and t ts
  assume "pending st = t # ts"
  then show "(resume t (st\<lparr>pending := ts\<rparr>), st)
               \<in> measure (\<lambda>st. sum_list (map task_weight (pending st)))"
    by (cases t) (auto simp: updateTime_afterGet_def updateTime_afterSet_def Let_def
                       split: option.splits)
qed

declare settle.simps [simp del]

subsection \<open>Timers, stopTracking, startTracking\<close>

text \<open>
  \<^verbatim>\<open>setInterval\<close> hands out a fresh handle and arms a timer; \<^verbatim>\<open>clearInterval\<close> disarms it.
  \<^verbatim>\<open>if (intervalId)\<close> is false for \<^verbatim>\<open>null\<close> and for the number 0.
\<close>

definition setInterval :: "state \<Rightarrow> state" where
  "setInterval st =
     st\<lparr>intervalId := Some (nextTimer st),
        timers := timers st @ [nextTimer st],
        nextTimer := nextTimer st + 1\<rparr>"

definition clearInterval :: "nat \<Rightarrow> state \<Rightarrow> state" where
  "clearInterval i st = st\<lparr>timers := removeAll i (timers st)\<rparr>"

definition stopTracking :: "state \<Rightarrow> state" where
  "stopTracking st =
     (let st1 = (case intervalId st of
                   None \<Rightarrow> st
                 | Some i \<Rightarrow> if i \<noteq> 0 then (clearInterval i st)\<lparr>intervalId := None\<rparr> else st);
          st2 = (case currentSite st1 of
                   None \<Rightarrow> st1
                 | Some _ \<Rightarrow> updateTime st1)
      in st2\<lparr>currentSite := None\<rparr>)"

definition startTracking :: "state \<Rightarrow> site option \<Rightarrow> state" where
  "startTracking st site =
     (if map_option hostname (currentSite st) = map_option hostname site then st
      else (let st1 = stopTracking st;
                st2 = st1\<lparr>currentSite := site, lastUpdateTime := clock st1\<rparr>
            in case site of
                 None \<Rightarrow> st2
               | Some _ \<Rightarrow> setInterval st2))"

subsection \<open>initializeStorage and the popup's reset\<close>

text \<open>
  \<open>initializeStorage\<close> reads both keys, writes the zero totals when \<^verbatim>\<open>timeData\<close> is missing,
  writes the default settings when \<^verbatim>\<open>settings\<close> is missing, and loads \<^verbatim>\<open>enabledPlatforms\<close>.
  No synchronous code follows any of its calls, so it is modelled as one step.
  \<open>resetAllData\<close> is the popup's (src/popup.js); its argument is the answer to the
  confirmation dialog.
\<close>

definition initialData :: time_data where
  "initialData =
     fold (\<lambda>site d. d(hostname site \<mapsto> \<lparr>entry_name = name site, totalMinutes = 0\<rparr>))
       TRACKED_SITES Map.empty"

definition initializeStorage :: "state \<Rightarrow> state" where
  "initializeStorage st =
     (let st1 = (case timeData st of
                   None \<Rightarrow> st\<lparr>timeData := Some initialData\<rparr>
                 | Some _ \<Rightarrow> st)
      in case stored_settings st of
           None \<Rightarrow>
             st1\<lparr>stored_settings := Some DEFAULT_SETTINGS,
                 enabledPlatforms := DEFAULT_enabledPlatforms\<rparr>
         | Some s \<Rightarrow>
             st1\<lparr>enabledPlatforms :=
                   (case settings_enabledPlatforms s of
                      None \<Rightarrow> DEFAULT_enabledPlatforms
                    | Some ep \<Rightarrow> ep)\<rparr>)"

definition resetData :: time_data where
  "resetData =
     [''axiom.trade'' \<mapsto> \<lparr>entry_name = ''Axiom'', totalMinutes = 0\<rparr>,
      ''trade.padre.gg'' \<mapsto> \<lparr>entry_name = ''Terminal'', totalMinutes = 0\<rparr>,
      ''gmgn.ai'' \<mapsto> \<lparr>entry_name = ''Gmgn'', totalMinutes = 0\<rparr>]"

definition resetAllData :: "bool \<Rightarrow> state \<Rightarrow> state" where
  "resetAllData confirmed st = (if confirmed then st\<lparr>timeData := Some resetData\<rparr> else st)"

subsection \<open>Event handlers\<close>

text \<open>
  Each handler is the synchronous code the listener runs once the browser has answered its
  queries; the answers (the tab, whether its window is minimized, the list a tab query
  returns) are arguments. \<open>track\<close> is the pair of lines
  \<^verbatim>\<open>const site = getTrackedSite(url); startTracking(site);\<close> that four listeners share.
\<close>

definition track :: "(string \<Rightarrow> js_error + string) \<Rightarrow> state \<Rightarrow> string option \<Rightarrow> state" where
  "track parseURL st u =
     (case getTrackedSite parseURL (enabledPlatforms st) u of
        Inl e \<Rightarrow> st\<lparr>errors := errors st @ [e]\<rparr>
      | Inr site \<Rightarrow> startTracking st site)"

text \<open>
  Two listeners are registered for tab activation. The first stores the tab's id; both then
  stop tracking when the window is minimized and start tracking the tab's site otherwise.
\<close>

definition onActivated ::
  "(string \<Rightarrow> js_error + string) \<Rightarrow> state \<Rightarrow> tab \<Rightarrow> bool \<Rightarrow> state" where
  "onActivated parseURL st t minimized =
     (let st1 = st\<lparr>activeTabId := Some (tab_id t)\<rparr>;
          st2 = (if minimized then stopTracking st1 else track parseURL st1 (tab_url t))
      in if minimized then stopTracking st2 else track parseURL st2 (tab_url t))"

definition onUpdated ::
  "(string \<Rightarrow> js_error + string) \<Rightarrow> state \<Rightarrow> nat \<Rightarrow> string option \<Rightarrow> state" where
  "onUpdated parseURL st tabId changed_url =
     (if Some tabId = activeTabId st \<and> changed_url \<noteq> None \<and> changed_url \<noteq> Some []
      then track parseURL st changed_url
      else st)"

text \<open>
  \<open>None\<close> is \<^verbatim>\<open>WINDOW_ID_NONE\<close>; otherwise the argument is what the query for the
  window's active tab returned.
\<close>

definition onFocusChanged ::
  "(string \<Rightarrow> js_error + string) \<Rightarrow> state \<Rightarrow> tab list option \<Rightarrow> state" where
  "onFocusChanged parseURL st w =
     (case w of
        None \<Rightarrow> stopTracking st
      | Some [] \<Rightarrow> st
      | Some (t # _) \<Rightarrow> track parseURL (st\<lparr>activeTabId := Some (tab_id t)\<rparr>) (tab_url t))"

datatype message = UpdateEnabledPlatforms platforms | OtherMessage

definition onMessage ::
  "(string \<Rightarrow> js_error + string) \<Rightarrow> state \<Rightarrow> message \<Rightarrow> tab list \<Rightarrow> state" where
  "onMessage parseURL st m tabs =
     (case m of
        OtherMessage \<Rightarrow> st
      | UpdateEnabledPlatforms ep \<Rightarrow>
          (let st1 = st\<lparr>enabledPlatforms := ep\<rparr>
           in case tabs of
                [] \<Rightarrow> st1
              | t # _ \<Rightarrow>
                  (case getTrackedSite parseURL (enabledPlatforms st1) (tab_url t) of
                     Inl e \<Rightarrow> st1\<lparr>errors := errors st1 @ [e]\<rparr>
                   | Inr None \<Rightarrow> stopTracking st1
                   | Inr (Some site) \<Rightarrow>
                       if map_option hostname (currentSite st1) \<noteq> Some (hostname site)
                       then startTracking st1 (Some site)
                       else st1)))"

text \<open>The query at the end of the script, run once when the script is loaded.\<close>

definition onLoaded ::
  "(string \<Rightarrow> js_error + string) \<Rightarrow> state \<Rightarrow> tab list \<Rightarrow> state" where
  "onLoaded parseURL st tabs =
     (case tabs of
        [] \<Rightarrow> st
      | t # _ \<Rightarrow> track parseURL (st\<lparr>activeTabId := Some (tab_id t)\<rparr>) (tab_url t))"

text \<open>An armed interval timer calls \<^verbatim>\<open>updateTime\<close>; a timer that was cleared never fires.\<close>

definition onTimer :: "state \<Rightarrow> nat \<Rightarrow> state" where
  "onTimer st i = (if i \<in> set (timers st) then updateTime st else st)"

subsection \<open>The event loop\<close>

datatype event =
    ClockAdvanced nat
  | TimerFired nat
  | TabActivated tab bool
  | TabUpdated nat "string option"
  | FocusChanged "tab list option"
  | MessageReceived message "tab list"
  | Installed
  | Startup
  | ActiveTabQueried "tab list"
  | ResetConfirmed
  | StorageReplied

fun handle :: "(string \<Rightarrow> js_error + string) \<Rightarrow> state \<Rightarrow> event \<Rightarrow> state" where
  "handle parseURL st (ClockAdvanced d) = st\<lparr>clock := clock st + int d\<rparr>"
| "handle parseURL st (TimerFired i) = onTimer st i"
| "handle parseURL st (TabActivated t minimized) = onActivated parseURL st t minimized"
| "handle parseURL st (TabUpdated tabId u) = onUpdated parseURL st tabId u"
| "handle parseURL st (FocusChanged w) = onFocusChanged parseURL st w"
| "handle parseURL st (MessageReceived m tabs) = onMessage parseURL st m tabs"
| "handle parseURL st Installed = initializeStorage st"
| "handle parseURL st Startup = initializeStorage st"
| "handle parseURL st (ActiveTabQueried tabs) = onLoaded parseURL st tabs"
| "handle parseURL st ResetConfirmed = resetAllData True st"
| "handle parseURL st StorageReplied =
     (case pending st of
        [] \<Rightarrow> st
      | t # ts \<Rightarrow> resume t (st\<lparr>pending := ts\<rparr>))"

text \<open>
  \<open>StorageReplied\<close> is the answer of the storage to the oldest request that is still
  open; the continuation that waits for it runs. \<open>deliver\<close> is the event loop: the events
  in the order in which the host delivers them, the answers of the storage among them at
  any place. \<open>step\<close> is one event together with the answers to the requests its handler
  has issued, and \<open>run\<close> a sequence of such steps: the schedules in which the storage
  answers before the next event.
\<close>

definition deliver :: "(string \<Rightarrow> js_error + string) \<Rightarrow> state \<Rightarrow> event list \<Rightarrow> state" where
  "deliver parseURL st evs = foldl (handle parseURL) st evs"

definition step :: "(string \<Rightarrow> js_error + string) \<Rightarrow> state \<Rightarrow> event \<Rightarrow> state" where
  "step parseURL st ev = settle (handle parseURL st ev)"

text \<open>
  The state in which the script is loaded: the five variables as their initialisers leave
  them, the clock and the storage as the host has them, no timer, nothing suspended. The
  script's own call of \<open>initializeStorage\<close> and the answer to its query for the active
  tab arrive as the events \<open>Startup\<close> and \<open>ActiveTabQueried\<close>, in either order.
\<close>

definition loaded :: "int \<Rightarrow> time_data option \<Rightarrow> settings option \<Rightarrow> state" where
  "loaded now td s =
     \<lparr>activeTabId = None, currentSite = None, lastUpdateTime = now, intervalId = None,
      enabledPlatforms = DEFAULT_enabledPlatforms, clock = now, timeData = td,
      stored_settings = s, timers = [], nextTimer = 1, pending = [], errors = []\<rparr>"

definition run :: "(string \<Rightarrow> js_error + string) \<Rightarrow> state \<Rightarrow> event list \<Rightarrow> state" where
  "run parseURL st evs = foldl (step parseURL) st evs"

text \<open>
  The persisted total of a hostname, as the popup shows it: 0 where there is no entry.
\<close>

definition stored_total :: "time_data option \<Rightarrow> string \<Rightarrow> int" where
  "stored_total td h =
     (case td of
        None \<Rightarrow> 0
      | Some d \<Rightarrow> (case d h of None \<Rightarrow> 0 | Some e \<Rightarrow> totalMinutes e))"

subsection \<open>Auxiliary notions for the statements\<close>

text \<open>
  \<open>credit td s n\<close> is the object \<open>updateTime\<close> writes back when it adds \<open>n\<close> minutes for
  the site \<open>s\<close> to the data \<open>td\<close> it has read; the lemma \<open>afterGet_Some\<close> below shows that
  the continuation computes exactly this.
\<close>

definition credit :: "time_data option \<Rightarrow> site \<Rightarrow> int \<Rightarrow> time_data" where
  "credit td s n =
     (timeData_or_empty td)(hostname s \<mapsto>
        (case timeData_or_empty td (hostname s) of
           None \<Rightarrow> \<lparr>entry_name = name s, totalMinutes = js_add 0 n\<rparr>
         | Some e \<Rightarrow> e\<lparr>totalMinutes := js_add (totalMinutes e) n\<rparr>))"

text \<open>
  The timer and the session agree: no handle, no armed timer and no current site; or one
  non-zero handle, exactly that timer armed, and a current site.
\<close>

definition timer_inv :: "state \<Rightarrow> bool" where
  "timer_inv st =
     (0 < nextTimer st \<and> (\<forall>i \<in> set (timers st). i < nextTimer st) \<and>
      (case intervalId st of
         None \<Rightarrow> timers st = [] \<and> currentSite st = None
       | Some i \<Rightarrow> 0 < i \<and> timers st = [i] \<and> currentSite st \<noteq> None))"


subsection \<open>Concrete inputs\<close>

definition axiom_site :: site where
  "axiom_site = \<lparr>hostname = ''axiom.trade'', name = ''Axiom''\<rparr>"

definition gmgn_site :: site where
  "gmgn_site = \<lparr>hostname = ''gmgn.ai'', name = ''Gmgn''\<rparr>"

text \<open>
  A session on axiom.trade whose last flush was at \<open>t0\<close>, seen at time \<open>now\<close>, with ten
  minutes already stored.
\<close>

definition tracking_axiom :: "int \<Rightarrow> int \<Rightarrow> state" where
  "tracking_axiom t0 now =
     \<lparr>activeTabId = Some 7, currentSite = Some axiom_site, lastUpdateTime = t0,
      intervalId = Some 1, enabledPlatforms = DEFAULT_enabledPlatforms, clock = now,
      timeData = Some [''axiom.trade'' \<mapsto> \<lparr>entry_name = ''Axiom'', totalMinutes = 10\<rparr>],
      stored_settings = Some DEFAULT_SETTINGS, timers = [1], nextTimer = 2,
      pending = [], errors = []\<rparr>"

text \<open>
  The URL parser on the four strings the examples use; the last is one the real parser
  rejects as well (an unclosed IPv6 literal).
\<close>

definition example_parseURL :: "string \<Rightarrow> js_error + string" where
  "example_parseURL u =
     (if u = ''https://axiom.trade/pulse'' then Inr ''axiom.trade''
      else if u = ''https://gmgn.ai/'' then Inr ''gmgn.ai''
      else if u = ''https://example.com/'' then Inr ''example.com''
      else Inl TypeError)"



text \<open>
  The same session one minute after its last flush, with \<open>2^53\<close> minutes stored.
\<close>

definition saturated_axiom :: state where
  "saturated_axiom =
     (tracking_axiom 0 60000)
       \<lparr>timeData := Some [''axiom.trade'' \<mapsto>
                           \<lparr>entry_name = ''Axiom'', totalMinutes = 9007199254740992\<rparr>]\<rparr>"





section \<open>Properties\<close>

subsection \<open>Addition of doubles that hold integers\<close>

lemma dexp_small: "m < 2 ^ 53 \<Longrightarrow> dexp m = 0"
  by (simp add: dexp.simps [of m])






lemma round_half_even_cases:
  "round_half_even x u = (x div u) * u \<or> round_half_even x u = (x div u + 1) * u"
  by (simp add: round_half_even_def Let_def)


lemma round_half_even_dvd: "u dvd round_half_even x u"
  using round_half_even_cases [of x u] by auto

lemma round_half_even_exact: "0 < u \<Longrightarrow> u dvd x \<Longrightarrow> round_half_even x u = x"
  by (auto simp: round_half_even_def Let_def)


lemma to_double_rep: "to_double a = a \<longleftrightarrow> 2 ^ dexp (nat \<bar>a\<bar>) dvd a"
proof
  assume "to_double a = a"
  then show "2 ^ dexp (nat \<bar>a\<bar>) dvd a"
    using round_half_even_dvd [of "2 ^ dexp (nat \<bar>a\<bar>)" a] by (simp add: to_double_def)
next
  assume "2 ^ dexp (nat \<bar>a\<bar>) dvd a"
  then show "to_double a = a"
    by (simp add: to_double_def round_half_even_exact)
qed

lemma dexp_2_53: "dexp 9007199254740992 = 1"
proof -
  have "dexp 9007199254740992 = Suc (dexp (9007199254740992 div 2))"
    by (subst dexp.simps) simp
  also have "dexp (9007199254740992 div 2) = 0"
    by (rule dexp_small) simp
  finally show ?thesis by simp
qed

lemma to_double_exact: "\<bar>x\<bar> \<le> 2 ^ 53 \<Longrightarrow> to_double x = x"
proof (cases "\<bar>x\<bar> < 2 ^ 53")
  case True
  then have "nat \<bar>x\<bar> < 2 ^ 53" by simp
  then have "dexp (nat \<bar>x\<bar>) = 0" by (rule dexp_small)
  then show ?thesis by (simp add: to_double_rep)
next
  case False
  assume "\<bar>x\<bar> \<le> 2 ^ 53"
  with False have x: "\<bar>x\<bar> = 9007199254740992" by simp
  then have "nat \<bar>x\<bar> = 9007199254740992" by simp
  then have "dexp (nat \<bar>x\<bar>) = 1" by (simp add: dexp_2_53)
  moreover have "2 dvd x" using x by presburger
  ultimately show ?thesis by (simp add: to_double_rep)
qed






lemma js_add_exact: "\<bar>a + b\<bar> \<le> 2 ^ 53 \<Longrightarrow> js_add a b = a + b"
  by (simp add: js_add_def to_double_exact)



lemma dexp_2_53_1: "dexp 9007199254740993 = 1"
proof -
  have "dexp 9007199254740993 = Suc (dexp (9007199254740993 div 2))"
    by (subst dexp.simps) simp
  also have "dexp (9007199254740993 div 2) = 0"
    by (rule dexp_small) simp
  finally show ?thesis by simp
qed

lemma js_add_saturated: "js_add 9007199254740992 1 = 9007199254740992"
  by (simp add: js_add_def to_double_def round_half_even_def dexp_2_53_1 Let_def)

subsection \<open>Running the continuations\<close>

lemma settle_Nil: "pending st = [] \<Longrightarrow> settle st = st"
  by (simp add: settle.simps [of st])

lemma settle_Cons:
  "pending st = t # ts \<Longrightarrow> settle st = settle (resume t (st\<lparr>pending := ts\<rparr>))"
  by (simp add: settle.simps [of st])

lemma afterGet_Some:
  "currentSite st = Some s \<Longrightarrow>
   updateTime_afterGet now n data st =
     st\<lparr>timeData := Some (credit data s n), pending := pending st @ [AfterSet now]\<rparr>"
  by (simp add: updateTime_afterGet_def credit_def Let_def split: option.splits)

lemma afterGet_None:
  "currentSite st = None \<Longrightarrow>
   updateTime_afterGet now n data st = st\<lparr>errors := errors st @ [TypeError]\<rparr>"
  by (simp add: updateTime_afterGet_def Let_def)

lemma updateTime_suspends:
  assumes "currentSite st = Some s" and "1 \<le> (clock st - lastUpdateTime st) div 60000"
  shows "updateTime st =
           st\<lparr>pending := pending st
                  @ [AfterGet (clock st) ((clock st - lastUpdateTime st) div 60000)
                       (timeData st)]\<rparr>"
  using assms by (simp add: updateTime_def Let_def)

lemma updateTime_returns:
  assumes "currentSite st = None \<or> \<not> 1 \<le> (clock st - lastUpdateTime st) div 60000"
  shows "updateTime st = st"
  using assms by (auto simp: updateTime_def Let_def split: option.splits)

text \<open>A flush that the timer starts, run to its end.\<close>

lemma flush_result:
  assumes "currentSite st = Some s" and "pending st = []"
    and "1 \<le> (clock st - lastUpdateTime st) div 60000"
  shows "settle (updateTime st) =
           st\<lparr>timeData := Some (credit (timeData st) s ((clock st - lastUpdateTime st) div 60000)),
              lastUpdateTime := clock st\<rparr>"
proof -
  let ?n = "(clock st - lastUpdateTime st) div 60000"
  let ?td = "Some (credit (timeData st) s ?n)"
  have "settle (updateTime st) =
          settle (st\<lparr>pending := [AfterGet (clock st) ?n (timeData st)]\<rparr>)"
    using assms by (simp add: updateTime_suspends)
  also have "\<dots> = settle (updateTime_afterGet (clock st) ?n (timeData st) (st\<lparr>pending := []\<rparr>))"
    by (simp add: settle_Cons)
  also have "\<dots> = settle (st\<lparr>timeData := ?td, pending := [AfterSet (clock st)]\<rparr>)"
    using assms by (simp add: afterGet_Some)
  also have "\<dots> = settle (st\<lparr>timeData := ?td, pending := [], lastUpdateTime := clock st\<rparr>)"
    by (simp add: settle_Cons updateTime_afterSet_def)
  also have "\<dots> = st\<lparr>timeData := ?td, pending := [], lastUpdateTime := clock st\<rparr>"
    by (simp add: settle_Nil)
  also have "\<dots> = st\<lparr>timeData := ?td, lastUpdateTime := clock st\<rparr>"
    using assms(2) by simp
  finally show ?thesis .
qed

lemma total_credit_same:
  "stored_total (Some (credit td s n)) (hostname s) = js_add (stored_total td (hostname s)) n"
  by (simp add: stored_total_def credit_def timeData_or_empty_def split: option.splits)


subsection \<open>getTrackedSite\<close>

lemma find_key_distinct:
  "distinct (map f xs) \<Longrightarrow>
   (find (\<lambda>x. k = f x) xs = Some y \<longleftrightarrow> y \<in> set xs \<and> f y = k)"
  by (induction xs) (auto simp: image_iff)

lemma distinct_TRACKED_SITES: "distinct (map hostname TRACKED_SITES)"
  by (simp add: TRACKED_SITES_def)

lemma find_tracked:
  "find (\<lambda>site. h = hostname site) TRACKED_SITES = Some s
     \<longleftrightarrow> s \<in> set TRACKED_SITES \<and> hostname s = h"
  by (rule find_key_distinct [OF distinct_TRACKED_SITES])

lemma getTrackedSite_Inr: "\<exists>r. getTrackedSite parseURL ep url = Inr r"
  by (auto simp: getTrackedSite_def split: sum.splits option.splits)

lemma getTrackedSite_try_throws:
  "parseURL u = Inl e \<Longrightarrow> getTrackedSite_try parseURL ep u = Inl e"
  by (simp add: getTrackedSite_try_def)

lemma getTrackedSite_Some_iff:
  "getTrackedSite parseURL ep url = Inr (Some s) \<longleftrightarrow>
     (\<exists>u h. url = Some u \<and> u \<noteq> [] \<and> parseURL u = Inr h \<and>
            s \<in> set TRACKED_SITES \<and> hostname s = h \<and> ep h = Some True)"
proof (cases url)
  case None
  then show ?thesis by (simp add: getTrackedSite_def)
next
  case (Some u)
  note url = this
  show ?thesis
  proof (cases "u = []")
    case True
    with url show ?thesis by (simp add: getTrackedSite_def)
  next
    case False
    note nonempty = this
    show ?thesis
    proof (cases "parseURL u")
      case (Inl e)
      with url nonempty show ?thesis
        by (simp add: getTrackedSite_def getTrackedSite_try_def)
    next
      case (Inr h)
      note parsed = this
      show ?thesis
      proof (cases "find (\<lambda>site. h = hostname site) TRACKED_SITES")
        case None
        then have "\<not> (s \<in> set TRACKED_SITES \<and> hostname s = h)"
          using find_tracked [of h s] by simp
        with url nonempty parsed None show ?thesis
          by (auto simp: getTrackedSite_def getTrackedSite_try_def)
      next
        case (Some s')
        then have s': "s' \<in> set TRACKED_SITES" "hostname s' = h"
          using find_tracked [of h s'] by simp_all
        have uniq: "s \<in> set TRACKED_SITES \<and> hostname s = h \<longleftrightarrow> s = s'"
          using find_tracked [of h s] Some by auto
        from url nonempty parsed Some s' uniq show ?thesis
          by (auto simp: getTrackedSite_def getTrackedSite_try_def)
      qed
    qed
  qed
qed

text \<open>
  C3. \<open>getTrackedSite\<close> returns a site exactly when the URL parses, its hostname is that
  of a site of the static list, and \<open>enabledPlatforms\<close> maps the hostname to true; the site
  returned is that site. For a hostname outside the list, and for a hostname that
  \<open>enabledPlatforms\<close> does not map to true, it returns none.
\<close>

theorem getTrackedSite_tracked_and_enabled:
  "(getTrackedSite parseURL ep url = Inr (Some s) \<longleftrightarrow>
      (\<exists>u h. url = Some u \<and> u \<noteq> [] \<and> parseURL u = Inr h \<and>
             s \<in> set TRACKED_SITES \<and> hostname s = h \<and> ep h = Some True)) \<and>
   (\<forall>u h. url = Some u \<and> parseURL u = Inr h \<and> h \<notin> hostname ` set TRACKED_SITES
           \<longrightarrow> getTrackedSite parseURL ep url = Inr None) \<and>
   (\<forall>u h. url = Some u \<and> parseURL u = Inr h \<and> ep h \<noteq> Some True
           \<longrightarrow> getTrackedSite parseURL ep url = Inr None)"
proof -
  have none: "getTrackedSite parseURL ep url = Inr None"
    if "\<forall>s. getTrackedSite parseURL ep url \<noteq> Inr (Some s)"
  proof -
    obtain r where r: "getTrackedSite parseURL ep url = Inr r"
      using getTrackedSite_Inr by blast
    with that show ?thesis by (cases r) simp_all
  qed
  have 2: "\<forall>u h. url = Some u \<and> parseURL u = Inr h \<and> h \<notin> hostname ` set TRACKED_SITES
             \<longrightarrow> getTrackedSite parseURL ep url = Inr None"
    by (intro allI impI none) (auto simp: getTrackedSite_Some_iff)
  have 3: "\<forall>u h. url = Some u \<and> parseURL u = Inr h \<and> ep h \<noteq> Some True
             \<longrightarrow> getTrackedSite parseURL ep url = Inr None"
    by (intro allI impI none) (auto simp: getTrackedSite_Some_iff)
  from getTrackedSite_Some_iff [of parseURL ep url s] 2 3 show ?thesis by blast
qed

theorem getTrackedSite_tracked_and_enabled_witness:
  "getTrackedSite example_parseURL DEFAULT_enabledPlatforms (Some ''https://axiom.trade/pulse'')
     = Inr (Some axiom_site) \<and>
   getTrackedSite example_parseURL DEFAULT_enabledPlatforms (Some ''https://example.com/'')
     = Inr None \<and>
   getTrackedSite example_parseURL DEFAULT_enabledPlatforms (Some ''https://gmgn.ai/'')
     = Inr None"
proof -
  have p1: "example_parseURL ''https://axiom.trade/pulse'' = Inr ''axiom.trade''"
    by (simp add: example_parseURL_def)
  have p2: "example_parseURL ''https://example.com/'' = Inr ''example.com''"
    by (simp add: example_parseURL_def)
  have p3: "example_parseURL ''https://gmgn.ai/'' = Inr ''gmgn.ai''"
    by (simp add: example_parseURL_def)
  have m: "axiom_site \<in> set TRACKED_SITES" "hostname axiom_site = ''axiom.trade''"
    by (simp_all add: axiom_site_def TRACKED_SITES_def)
  have e1: "DEFAULT_enabledPlatforms ''axiom.trade'' = Some True"
    by (simp add: DEFAULT_enabledPlatforms_def)
  have n2: "''example.com'' \<notin> hostname ` set TRACKED_SITES"
    by (simp add: TRACKED_SITES_def)
  have e3: "DEFAULT_enabledPlatforms ''gmgn.ai'' \<noteq> Some True"
    by (simp add: DEFAULT_enabledPlatforms_def)
  have 1: "getTrackedSite example_parseURL DEFAULT_enabledPlatforms
             (Some ''https://axiom.trade/pulse'') = Inr (Some axiom_site)"
    using getTrackedSite_tracked_and_enabled
            [of example_parseURL DEFAULT_enabledPlatforms "Some ''https://axiom.trade/pulse''"
                axiom_site]
          p1 m e1 by simp
  have 2: "getTrackedSite example_parseURL DEFAULT_enabledPlatforms
             (Some ''https://example.com/'') = Inr None"
    using getTrackedSite_tracked_and_enabled
            [of example_parseURL DEFAULT_enabledPlatforms "Some ''https://example.com/''"
                axiom_site]
          p2 n2 by blast
  have 3: "getTrackedSite example_parseURL DEFAULT_enabledPlatforms
             (Some ''https://gmgn.ai/'') = Inr None"
    using getTrackedSite_tracked_and_enabled
            [of example_parseURL DEFAULT_enabledPlatforms "Some ''https://gmgn.ai/''"
                axiom_site]
          p3 e3 by blast
  from 1 2 3 show ?thesis by simp
qed

text \<open>
  C4. \<open>getTrackedSite\<close> never ends in an exception, and for a missing url, an empty url
  and a url the parser rejects it returns none.
\<close>

theorem getTrackedSite_malformed:
  "(\<forall>e. getTrackedSite parseURL ep url \<noteq> Inl e) \<and>
   (url = None \<or> url = Some [] \<or> (\<exists>u e. url = Some u \<and> parseURL u = Inl e)
      \<longrightarrow> getTrackedSite parseURL ep url = Inr None)"
proof -
  have 1: "\<forall>e. getTrackedSite parseURL ep url \<noteq> Inl e"
    using getTrackedSite_Inr [of parseURL ep url] by auto
  have 2: "url = None \<or> url = Some [] \<or> (\<exists>u e. url = Some u \<and> parseURL u = Inl e)
             \<longrightarrow> getTrackedSite parseURL ep url = Inr None"
    by (auto simp: getTrackedSite_def getTrackedSite_try_def)
  from 1 2 show ?thesis by simp
qed

theorem getTrackedSite_malformed_witness:
  "getTrackedSite example_parseURL DEFAULT_enabledPlatforms (Some ''http://['') = Inr None \<and>
   getTrackedSite_try example_parseURL DEFAULT_enabledPlatforms ''http://['' = Inl TypeError \<and>
   getTrackedSite example_parseURL DEFAULT_enabledPlatforms None = Inr None \<and>
   getTrackedSite example_parseURL DEFAULT_enabledPlatforms (Some []) = Inr None"
proof -
  have p: "example_parseURL ''http://['' = Inl TypeError"
    by (simp add: example_parseURL_def)
  then have a: "\<exists>u e. Some ''http://['' = Some u \<and> example_parseURL u = Inl e"
    by blast
  have 1: "getTrackedSite example_parseURL DEFAULT_enabledPlatforms (Some ''http://['') = Inr None"
    using getTrackedSite_malformed
            [of example_parseURL DEFAULT_enabledPlatforms "Some ''http://[''"] a
    by blast
  have 2: "getTrackedSite_try example_parseURL DEFAULT_enabledPlatforms ''http://['' = Inl TypeError"
    using p by (rule getTrackedSite_try_throws)
  have 3: "getTrackedSite example_parseURL DEFAULT_enabledPlatforms None = Inr None"
    using getTrackedSite_malformed [of example_parseURL DEFAULT_enabledPlatforms None]
    by blast
  have 4: "getTrackedSite example_parseURL DEFAULT_enabledPlatforms (Some []) = Inr None"
    using getTrackedSite_malformed [of example_parseURL DEFAULT_enabledPlatforms "Some []"]
    by blast
  from 1 2 3 4 show ?thesis by simp
qed

subsection \<open>The flush\<close>

text \<open>
  C6, as the code has it. In a session, a flush that runs to its end while the session
  lasts (as the timer starts it), after \<open>n \<ge> 1\<close> whole minutes, where
  \<open>n = floor ((now - lastUpdateTime) / 60000)\<close>, raises the stored total of the current
  site's hostname by exactly \<open>n\<close>, provided the new total is at most \<open>2^53\<close> in
  magnitude; the entry exists afterwards, starting from a zero entry with the site's name
  when there was none; every other hostname keeps its entry.
\<close>

theorem flush_adds_whole_minutes:
  assumes "currentSite st = Some s" and "pending st = []"
    and "n = (clock st - lastUpdateTime st) div 60000" and "1 \<le> n"
    and "\<bar>stored_total (timeData st) (hostname s) + n\<bar> \<le> 2 ^ 53"
  shows "stored_total (timeData (settle (updateTime st))) (hostname s)
           = stored_total (timeData st) (hostname s) + n \<and>
         (\<exists>d e. timeData (settle (updateTime st)) = Some d \<and> d (hostname s) = Some e \<and>
                 (timeData_or_empty (timeData st) (hostname s) = None \<longrightarrow>
                    e = \<lparr>entry_name = name s, totalMinutes = 0 + n\<rparr>)) \<and>
         (\<forall>h. h \<noteq> hostname s \<longrightarrow>
              timeData_or_empty (timeData (settle (updateTime st))) h
                = timeData_or_empty (timeData st) h)"
proof -
  have r: "settle (updateTime st) =
             st\<lparr>timeData := Some (credit (timeData st) s n), lastUpdateTime := clock st\<rparr>"
    using assms by (simp add: flush_result)
  have exact: "js_add (stored_total (timeData st) (hostname s)) n
                 = stored_total (timeData st) (hostname s) + n"
    using assms(5) by (rule js_add_exact)
  have 1: "stored_total (timeData (settle (updateTime st))) (hostname s)
             = stored_total (timeData st) (hostname s) + n"
    by (simp add: r total_credit_same exact)
  have zero: "js_add 0 n = 0 + n"
    if "timeData_or_empty (timeData st) (hostname s) = None"
  proof -
    from that have "stored_total (timeData st) (hostname s) = 0"
      by (simp add: stored_total_def timeData_or_empty_def split: option.splits)
    with exact show ?thesis by simp
  qed
  have 2: "\<exists>d e. timeData (settle (updateTime st)) = Some d \<and> d (hostname s) = Some e \<and>
                 (timeData_or_empty (timeData st) (hostname s) = None \<longrightarrow>
                    e = \<lparr>entry_name = name s, totalMinutes = 0 + n\<rparr>)"
    using zero by (simp add: r credit_def)
  have 3: "\<forall>h. h \<noteq> hostname s \<longrightarrow>
              timeData_or_empty (timeData (settle (updateTime st))) h
                = timeData_or_empty (timeData st) h"
    by (simp add: r credit_def timeData_or_empty_def)
  from 1 2 3 show ?thesis by blast
qed

theorem flush_adds_whole_minutes_witness:
  "currentSite (tracking_axiom 0 1500000) = Some axiom_site \<and>
   pending (tracking_axiom 0 1500000) = [] \<and>
   (clock (tracking_axiom 0 1500000) - lastUpdateTime (tracking_axiom 0 1500000)) div 60000 = 25 \<and>
   stored_total (timeData (tracking_axiom 0 1500000)) ''axiom.trade'' = 10 \<and>
   stored_total (timeData (settle (updateTime (tracking_axiom 0 1500000)))) ''axiom.trade'' = 35"
proof -
  have a: "currentSite (tracking_axiom 0 1500000) = Some axiom_site"
    by (simp add: tracking_axiom_def)
  have b: "pending (tracking_axiom 0 1500000) = []"
    by (simp add: tracking_axiom_def)
  have c: "25 = (clock (tracking_axiom 0 1500000) - lastUpdateTime (tracking_axiom 0 1500000)) div 60000"
    by (simp add: tracking_axiom_def)
  have d: "(1::int) \<le> 25" by simp
  have f: "hostname axiom_site = ''axiom.trade''"
    by (simp add: axiom_site_def)
  have e: "stored_total (timeData (tracking_axiom 0 1500000)) ''axiom.trade'' = 10"
    by (simp add: tracking_axiom_def stored_total_def)
  have g: "\<bar>stored_total (timeData (tracking_axiom 0 1500000)) (hostname axiom_site) + 25\<bar> \<le> 2 ^ 53"
    by (simp add: e f)
  show ?thesis
    using flush_adds_whole_minutes [OF a b c d g] a b c e f by simp
qed

text \<open>
  C6 as stated fails where the double cannot hold the sum: with \<open>2^53\<close> minutes stored, a
  flush after one whole minute writes \<open>2^53\<close> back, and the total is what it was.
\<close>

theorem flush_adds_whole_minutes_counterexample:
  "currentSite saturated_axiom = Some axiom_site \<and>
   pending saturated_axiom = [] \<and>
   (clock saturated_axiom - lastUpdateTime saturated_axiom) div 60000 = 1 \<and>
   stored_total (timeData saturated_axiom) ''axiom.trade'' = 9007199254740992 \<and>
   stored_total (timeData (settle (updateTime saturated_axiom))) ''axiom.trade''
     = 9007199254740992 \<and>
   stored_total (timeData (settle (updateTime saturated_axiom))) ''axiom.trade''
     \<noteq> stored_total (timeData saturated_axiom) ''axiom.trade'' + 1"
proof -
  have a: "currentSite saturated_axiom = Some axiom_site"
    by (simp add: saturated_axiom_def tracking_axiom_def)
  have b: "pending saturated_axiom = []"
    by (simp add: saturated_axiom_def tracking_axiom_def)
  have c: "(clock saturated_axiom - lastUpdateTime saturated_axiom) div 60000 = 1"
    by (simp add: saturated_axiom_def tracking_axiom_def)
  have d: "stored_total (timeData saturated_axiom) ''axiom.trade'' = 9007199254740992"
    by (simp add: saturated_axiom_def stored_total_def)
  have f: "hostname axiom_site = ''axiom.trade''"
    by (simp add: axiom_site_def)
  have "settle (updateTime saturated_axiom) =
          saturated_axiom\<lparr>timeData := Some (credit (timeData saturated_axiom) axiom_site 1),
                           lastUpdateTime := clock saturated_axiom\<rparr>"
    using flush_result [OF a b] c by simp
  then have "stored_total (timeData (settle (updateTime saturated_axiom))) (hostname axiom_site)
               = js_add (stored_total (timeData saturated_axiom) (hostname axiom_site)) 1"
    by (simp add: total_credit_same)
  then have e: "stored_total (timeData (settle (updateTime saturated_axiom))) ''axiom.trade''
                  = 9007199254740992"
    by (simp add: f d js_add_saturated)
  from a b c d e show ?thesis by simp
qed

text \<open>
  C7. A flush without a current site, and a flush less than one whole minute after
  \<open>lastUpdateTime\<close>, returns at once: the state, with the storage and \<open>lastUpdateTime\<close>
  in it, is unchanged and nothing is suspended.
\<close>

theorem flush_noop:
  assumes "currentSite st = None \<or> clock st - lastUpdateTime st < 60000"
  shows "updateTime st = st \<and> (pending st = [] \<longrightarrow> settle (updateTime st) = st)"
proof -
  have "updateTime st = st"
  proof (cases "currentSite st")
    case None
    then show ?thesis by (simp add: updateTime_def)
  next
    case (Some s)
    with assms have "clock st - lastUpdateTime st < 60000" by simp
    then have "\<not> 1 \<le> (clock st - lastUpdateTime st) div 60000" by simp
    with Some show ?thesis by (simp add: updateTime_def Let_def)
  qed
  then show ?thesis by (simp add: settle_Nil)
qed

theorem flush_noop_witness:
  "settle (updateTime (tracking_axiom 0 59999)) = tracking_axiom 0 59999 \<and>
   settle (updateTime (loaded 5 None None)) = loaded 5 None None"
proof -
  have a: "currentSite (tracking_axiom 0 59999) = None \<or>
           clock (tracking_axiom 0 59999) - lastUpdateTime (tracking_axiom 0 59999) < 60000"
    by (simp add: tracking_axiom_def)
  have b: "pending (tracking_axiom 0 59999) = []"
    by (simp add: tracking_axiom_def)
  have c: "currentSite (loaded 5 None None) = None \<or>
           clock (loaded 5 None None) - lastUpdateTime (loaded 5 None None) < 60000"
    by (simp add: loaded_def)
  have d: "pending (loaded 5 None None) = []"
    by (simp add: loaded_def)
  show ?thesis
    using flush_noop [OF a] flush_noop [OF c] b d by blast
qed

text \<open>
  C1, as the code has it. A flush of at least one whole minute sets \<open>lastUpdateTime\<close> to
  the time read at its start, that is, it advances it by the whole minutes and by the
  remainder of the interval as well.
\<close>

theorem flush_sets_lastUpdateTime_to_now:
  assumes "currentSite st = Some s" and "pending st = []"
    and "1 \<le> (clock st - lastUpdateTime st) div 60000"
  shows "lastUpdateTime (settle (updateTime st)) = clock st \<and>
         lastUpdateTime (settle (updateTime st))
           = lastUpdateTime st + ((clock st - lastUpdateTime st) div 60000) * 60000
             + (clock st - lastUpdateTime st) mod 60000"
proof -
  have "lastUpdateTime (settle (updateTime st)) = clock st"
    using assms by (simp add: flush_result)
  moreover have "clock st = lastUpdateTime st + ((clock st - lastUpdateTime st) div 60000) * 60000
             + (clock st - lastUpdateTime st) mod 60000"
    by simp
  ultimately show ?thesis by simp
qed

theorem flush_sets_lastUpdateTime_to_now_witness:
  "currentSite (tracking_axiom 0 90000) = Some axiom_site \<and>
   pending (tracking_axiom 0 90000) = [] \<and>
   1 \<le> (clock (tracking_axiom 0 90000) - lastUpdateTime (tracking_axiom 0 90000)) div 60000 \<and>
   lastUpdateTime (settle (updateTime (tracking_axiom 0 90000))) = 90000"
proof -
  have a: "currentSite (tracking_axiom 0 90000) = Some axiom_site"
    by (simp add: tracking_axiom_def)
  have b: "pending (tracking_axiom 0 90000) = []"
    by (simp add: tracking_axiom_def)
  have c: "1 \<le> (clock (tracking_axiom 0 90000) - lastUpdateTime (tracking_axiom 0 90000)) div 60000"
    by (simp add: tracking_axiom_def)
  have d: "clock (tracking_axiom 0 90000) = 90000"
    by (simp add: tracking_axiom_def)
  show ?thesis
    using flush_sets_lastUpdateTime_to_now [OF a b c] a b c d by simp
qed

text \<open>
  C1 as stated fails: 90 seconds after the last flush one minute is credited and
  \<open>lastUpdateTime\<close> moves by 90000, not by 60000.
\<close>

theorem flush_advance_counterexample:
  "1 \<le> (clock (tracking_axiom 0 90000) - lastUpdateTime (tracking_axiom 0 90000)) div 60000 \<and>
   lastUpdateTime (settle (updateTime (tracking_axiom 0 90000)))
     \<noteq> lastUpdateTime (tracking_axiom 0 90000)
        + ((clock (tracking_axiom 0 90000) - lastUpdateTime (tracking_axiom 0 90000)) div 60000) * 60000"
proof -
  have a: "currentSite (tracking_axiom 0 90000) = Some axiom_site"
    by (simp add: tracking_axiom_def)
  have b: "pending (tracking_axiom 0 90000) = []"
    by (simp add: tracking_axiom_def)
  have c: "1 \<le> (clock (tracking_axiom 0 90000) - lastUpdateTime (tracking_axiom 0 90000)) div 60000"
    by (simp add: tracking_axiom_def)
  have "lastUpdateTime (settle (updateTime (tracking_axiom 0 90000))) = 90000"
    using a b c by (simp add: flush_result) (simp add: tracking_axiom_def)
  moreover have "lastUpdateTime (tracking_axiom 0 90000)
        + ((clock (tracking_axiom 0 90000) - lastUpdateTime (tracking_axiom 0 90000)) div 60000) * 60000 = 60000"
    by (simp add: tracking_axiom_def)
  ultimately show ?thesis using c by simp
qed

subsection \<open>startTracking\<close>

lemma currentSite_setInterval: "currentSite (setInterval st) = currentSite st"
  by (simp add: setInterval_def)

lemma currentSite_startTracking:
  "map_option hostname (currentSite (startTracking st site)) = map_option hostname site"
  by (cases site) (simp_all add: startTracking_def Let_def currentSite_setInterval)

text \<open>
  C5. \<open>startTracking\<close> with a site whose hostname is that of the current site (or with
  none when there is none) returns the state as it is: \<open>lastUpdateTime\<close>, the handle and
  the armed timers are untouched. Hence a second call with the same site changes nothing.
\<close>

theorem startTracking_idempotent:
  "(map_option hostname (currentSite st) = map_option hostname site \<longrightarrow> startTracking st site = st) \<and>
   startTracking (startTracking st site) site = startTracking st site"
proof -
  have 1: "map_option hostname (currentSite st) = map_option hostname site \<longrightarrow> startTracking st site = st"
    by (simp add: startTracking_def)
  have 2: "startTracking (startTracking st site) site = startTracking st site"
    using currentSite_startTracking [of st site] by (simp add: startTracking_def [of "startTracking st site"])
  from 1 2 show ?thesis by simp
qed

theorem startTracking_idempotent_witness:
  "map_option hostname (currentSite (tracking_axiom 0 30000)) = map_option hostname (Some axiom_site) \<and>
   startTracking (tracking_axiom 0 30000) (Some axiom_site) = tracking_axiom 0 30000 \<and>
   lastUpdateTime (startTracking (tracking_axiom 0 30000) (Some axiom_site)) = 0 \<and>
   intervalId (startTracking (tracking_axiom 0 30000) (Some axiom_site)) = Some 1 \<and>
   timers (startTracking (tracking_axiom 0 30000) (Some axiom_site)) = [1]"
proof -
  have a: "map_option hostname (currentSite (tracking_axiom 0 30000)) = map_option hostname (Some axiom_site)"
    by (simp add: tracking_axiom_def)
  have b: "startTracking (tracking_axiom 0 30000) (Some axiom_site) = tracking_axiom 0 30000"
    using startTracking_idempotent [of "tracking_axiom 0 30000" "Some axiom_site"] a by simp
  show ?thesis
    using a b by (simp add: tracking_axiom_def)
qed


subsection \<open>What the continuations leave alone\<close>

lemma resume_frame:
  "currentSite (resume t st) = currentSite st \<and> intervalId (resume t st) = intervalId st \<and>
   timers (resume t st) = timers st \<and> nextTimer (resume t st) = nextTimer st \<and>
   enabledPlatforms (resume t st) = enabledPlatforms st \<and> clock (resume t st) = clock st \<and>
   activeTabId (resume t st) = activeTabId st"
  by (cases t) (simp_all add: updateTime_afterGet_def updateTime_afterSet_def Let_def split: option.splits)

lemma settle_frame:
  "currentSite (settle st) = currentSite st \<and> intervalId (settle st) = intervalId st \<and>
   timers (settle st) = timers st \<and> nextTimer (settle st) = nextTimer st \<and>
   enabledPlatforms (settle st) = enabledPlatforms st \<and> clock (settle st) = clock st \<and>
   activeTabId (settle st) = activeTabId st"
proof (induction st rule: settle.induct)
  case (1 st)
  show ?case
  proof (cases "pending st")
    case Nil
    then show ?thesis by (simp add: settle_Nil)
  next
    case (Cons t ts)
    from "1" [OF Cons] resume_frame [of t "st\<lparr>pending := ts\<rparr>"] show ?thesis
      by (simp add: settle_Cons [OF Cons])
  qed
qed


lemma resume_idle:
  "currentSite st = None \<Longrightarrow> timeData (resume t st) = timeData st"
  by (cases t) (simp_all add: afterGet_None updateTime_afterSet_def)

lemma timeData_settle_idle:
  "currentSite st = None \<Longrightarrow> timeData (settle st) = timeData st"
proof (induction st rule: settle.induct)
  case (1 st)
  show ?case
  proof (cases "pending st")
    case Nil
    then show ?thesis by (simp add: settle_Nil)
  next
    case (Cons t ts)
    have "currentSite (resume t (st\<lparr>pending := ts\<rparr>)) = None"
      using "1.prems" resume_frame [of t "st\<lparr>pending := ts\<rparr>"] by simp
    with "1.IH" [OF Cons] have "timeData (settle (resume t (st\<lparr>pending := ts\<rparr>))) = timeData (resume t (st\<lparr>pending := ts\<rparr>))"
      by simp
    also have "\<dots> = timeData st"
      using "1.prems" resume_idle [of "st\<lparr>pending := ts\<rparr>" t] by simp
    finally show ?thesis by (simp add: settle_Cons [OF Cons])
  qed
qed

lemma timeData_updateTime: "timeData (updateTime st) = timeData st"
  by (simp add: updateTime_def Let_def split: option.splits)

lemma timeData_stopTracking: "timeData (stopTracking st) = timeData st"
  by (simp add: stopTracking_def Let_def clearInterval_def timeData_updateTime split: option.splits)

lemma currentSite_stopTracking: "currentSite (stopTracking st) = None"
  by (simp add: stopTracking_def Let_def)

subsection \<open>The timer and the session\<close>

lemma timer_inv_iff:
  "timer_inv st \<longleftrightarrow>
     0 < nextTimer st \<and> (\<forall>i \<in> set (timers st). i < nextTimer st) \<and>
     (intervalId st = None \<longrightarrow> timers st = [] \<and> currentSite st = None) \<and>
     (\<forall>i. intervalId st = Some i \<longrightarrow> 0 < i \<and> timers st = [i] \<and> currentSite st \<noteq> None)"
  by (auto simp: timer_inv_def split: option.splits)

lemma timer_inv_updateTime: "timer_inv (updateTime st) = timer_inv st"
  by (simp add: updateTime_def timer_inv_def Let_def split: option.splits)

lemma stopTracking_timer:
  assumes "timer_inv st"
  shows "timer_inv (stopTracking st) \<and> intervalId (stopTracking st) = None \<and>
         timers (stopTracking st) = [] \<and> nextTimer (stopTracking st) = nextTimer st"
proof (cases "intervalId st")
  case None
  with assms have "currentSite st = None" "timers st = []" "0 < nextTimer st"
    by (simp_all add: timer_inv_iff)
  with None show ?thesis
    by (simp add: stopTracking_def Let_def timer_inv_iff)
next
  case (Some i)
  with assms have i: "0 < i" "timers st = [i]" "0 < nextTimer st"
    by (simp_all add: timer_inv_iff)
  with Some show ?thesis
    by (simp add: stopTracking_def Let_def timer_inv_iff clearInterval_def updateTime_def
             split: option.splits)
qed

lemma startTracking_switch:
  assumes "map_option hostname (currentSite st) \<noteq> map_option hostname site"
  shows "startTracking st site =
           (case site of
              None \<Rightarrow> (stopTracking st)\<lparr>currentSite := site, lastUpdateTime := clock (stopTracking st)\<rparr>
            | Some _ \<Rightarrow>
                setInterval ((stopTracking st)\<lparr>currentSite := site,
                                              lastUpdateTime := clock (stopTracking st)\<rparr>))"
  using assms by (simp add: startTracking_def Let_def)

lemma startTracking_timer:
  assumes "timer_inv st"
  shows "timer_inv (startTracking st site)"
proof (cases "map_option hostname (currentSite st) = map_option hostname site")
  case True
  with assms show ?thesis by (simp add: startTracking_def)
next
  case False
  from stopTracking_timer [OF assms] have s:
    "intervalId (stopTracking st) = None" "timers (stopTracking st) = []"
    "0 < nextTimer (stopTracking st)"
    by (simp_all add: timer_inv_iff)
  show ?thesis
  proof (cases site)
    case None
    with startTracking_switch [OF False] have
      "startTracking st site =
         (stopTracking st)\<lparr>currentSite := None, lastUpdateTime := clock (stopTracking st)\<rparr>"
      by simp
    with s show ?thesis
      by (simp add: timer_inv_iff)
  next
    case (Some x)
    with startTracking_switch [OF False] have
      "startTracking st site =
         setInterval ((stopTracking st)\<lparr>currentSite := Some x,
                                       lastUpdateTime := clock (stopTracking st)\<rparr>)"
      by simp
    with s show ?thesis
      by (simp add: timer_inv_iff setInterval_def)
  qed
qed

lemma timer_inv_cong:
  assumes "currentSite st' = currentSite st" "intervalId st' = intervalId st"
    "timers st' = timers st" "nextTimer st' = nextTimer st"
  shows "timer_inv st' = timer_inv st"
  using assms by (simp add: timer_inv_iff)

lemma timer_inv_settle: "timer_inv (settle st) = timer_inv st"
  using settle_frame [of st] by (simp add: timer_inv_iff)

lemma track_timer: "timer_inv st \<Longrightarrow> timer_inv (track P st u)"
proof -
  assume a: "timer_inv st"
  obtain r where r: "getTrackedSite P (enabledPlatforms st) u = Inr r"
    using getTrackedSite_Inr by blast
  show ?thesis using a r by (simp add: track_def startTracking_timer)
qed

lemma timer_inv_activeTabId: "timer_inv (st\<lparr>activeTabId := a\<rparr>) = timer_inv st"
  by (simp add: timer_inv_iff)

lemma timer_inv_enabledPlatforms: "timer_inv (st\<lparr>enabledPlatforms := a\<rparr>) = timer_inv st"
  by (simp add: timer_inv_iff)

lemma timer_inv_clock: "timer_inv (st\<lparr>clock := a\<rparr>) = timer_inv st"
  by (simp add: timer_inv_iff)

lemma timer_inv_initializeStorage: "timer_inv (initializeStorage st) = timer_inv st"
  by (simp add: initializeStorage_def timer_inv_iff Let_def split: option.splits)

lemma timer_inv_resetAllData: "timer_inv (resetAllData c st) = timer_inv st"
  by (simp add: resetAllData_def timer_inv_iff)

lemma onMessage_timer: "timer_inv st \<Longrightarrow> timer_inv (onMessage P st m tabs)"
proof (cases m)
  case OtherMessage
  assume "timer_inv st"
  with OtherMessage show ?thesis by (simp add: onMessage_def)
next
  case (UpdateEnabledPlatforms ep)
  assume a: "timer_inv st"
  then have b: "timer_inv (st\<lparr>enabledPlatforms := ep\<rparr>)"
    by (simp add: timer_inv_enabledPlatforms)
  show ?thesis
  proof (cases tabs)
    case Nil
    with UpdateEnabledPlatforms b show ?thesis by (simp add: onMessage_def)
  next
    case (Cons t ts)
    obtain r where r: "getTrackedSite P ep (tab_url t) = Inr r"
      using getTrackedSite_Inr by blast
    show ?thesis
      using UpdateEnabledPlatforms Cons r b
      by (cases r) (simp_all add: onMessage_def Let_def stopTracking_timer startTracking_timer)
  qed
qed

lemma handle_timer: "timer_inv st \<Longrightarrow> timer_inv (handle P st ev)"
proof (cases ev)
  case (ClockAdvanced d)
  assume "timer_inv st"
  with ClockAdvanced show ?thesis by (simp add: timer_inv_clock)
next
  case (TimerFired i)
  assume "timer_inv st"
  with TimerFired show ?thesis by (simp add: onTimer_def timer_inv_updateTime)
next
  case (TabActivated t minimized)
  assume "timer_inv st"
  with TabActivated show ?thesis
    by (simp add: onActivated_def Let_def stopTracking_timer track_timer timer_inv_activeTabId)
next
  case (TabUpdated tabId u)
  assume "timer_inv st"
  with TabUpdated show ?thesis by (simp add: onUpdated_def track_timer)
next
  case (FocusChanged w)
  assume "timer_inv st"
  with FocusChanged show ?thesis
    by (simp add: onFocusChanged_def stopTracking_timer track_timer timer_inv_activeTabId
             split: option.splits list.splits)
next
  case (MessageReceived m tabs)
  assume "timer_inv st"
  with MessageReceived show ?thesis by (simp add: onMessage_timer)
next
  case Installed
  assume "timer_inv st"
  with Installed show ?thesis by (simp add: timer_inv_initializeStorage)
next
  case Startup
  assume "timer_inv st"
  with Startup show ?thesis by (simp add: timer_inv_initializeStorage)
next
  case (ActiveTabQueried tabs)
  assume "timer_inv st"
  with ActiveTabQueried show ?thesis
    by (simp add: onLoaded_def track_timer timer_inv_activeTabId split: list.splits)
next
  case ResetConfirmed
  assume "timer_inv st"
  with ResetConfirmed show ?thesis by (simp add: timer_inv_resetAllData)
next
  case StorageReplied
  assume a: "timer_inv st"
  show ?thesis
  proof (cases "pending st")
    case Nil
    with StorageReplied a show ?thesis by simp
  next
    case (Cons t ts)
    have "timer_inv (resume t (st\<lparr>pending := ts\<rparr>)) = timer_inv st"
      using resume_frame [of t "st\<lparr>pending := ts\<rparr>"] by (simp add: timer_inv_iff)
    with StorageReplied Cons a show ?thesis by simp
  qed
qed

lemma step_timer: "timer_inv st \<Longrightarrow> timer_inv (step P st ev)"
  by (simp add: step_def timer_inv_settle handle_timer)

lemma run_timer: "timer_inv st \<Longrightarrow> timer_inv (run P st evs)"
  unfolding run_def by (induction evs arbitrary: st) (simp_all add: step_timer)

lemma deliver_timer: "timer_inv st \<Longrightarrow> timer_inv (deliver P st evs)"
  unfolding deliver_def by (induction evs arbitrary: st) (simp_all add: handle_timer)

lemma loaded_timer: "timer_inv (loaded now td s)"
  by (simp add: loaded_def timer_inv_iff)

text \<open>
  C10. The agreement of timer and session (\<open>timer_inv\<close>) holds when the script is loaded
  and in every state reached from there by any sequence of events; \<open>stopTracking\<close>,
  \<open>startTracking\<close> and every event handler preserve it. Where it holds, the handle is
  set exactly when a current site is set, and the armed timers are exactly the one the
  handle names: no timer outlives its session and no session is without its timer.
\<close>

theorem timer_armed_iff_tracking:
  "timer_inv (run P (loaded now td s) evs) \<and>
   (timer_inv st \<longrightarrow>
      timer_inv (stopTracking st) \<and> timer_inv (startTracking st site) \<and>
      timer_inv (step P st ev)) \<and>
   (timer_inv st \<longrightarrow>
      (intervalId st \<noteq> None \<longleftrightarrow> currentSite st \<noteq> None) \<and>
      timers st = (case intervalId st of None \<Rightarrow> [] | Some i \<Rightarrow> [i]))"
proof -
  have 1: "timer_inv (run P (loaded now td s) evs)"
    by (rule run_timer [OF loaded_timer])
  have 2: "timer_inv st \<longrightarrow>
      timer_inv (stopTracking st) \<and> timer_inv (startTracking st site) \<and>
      timer_inv (step P st ev)"
    by (simp add: stopTracking_timer startTracking_timer step_timer)
  have 3: "timer_inv st \<longrightarrow>
      (intervalId st \<noteq> None \<longleftrightarrow> currentSite st \<noteq> None) \<and>
      timers st = (case intervalId st of None \<Rightarrow> [] | Some i \<Rightarrow> [i])"
    by (auto simp: timer_inv_iff split: option.splits)
  from 1 2 3 show ?thesis by blast
qed

theorem timer_armed_iff_tracking_witness:
  "timer_inv (tracking_axiom 0 30000) \<and>
   timer_inv (stopTracking (tracking_axiom 0 30000)) \<and>
   timer_inv (startTracking (tracking_axiom 0 30000) (Some gmgn_site)) \<and>
   intervalId (tracking_axiom 0 30000) \<noteq> None \<and>
   currentSite (tracking_axiom 0 30000) \<noteq> None \<and>
   timers (tracking_axiom 0 30000) = [1]"
proof -
  have a: "timer_inv (tracking_axiom 0 30000)"
    by (simp add: timer_inv_def tracking_axiom_def)
  show ?thesis
    using timer_armed_iff_tracking
            [of example_parseURL 0 None None "[]" "tracking_axiom 0 30000" "Some gmgn_site"
                "TimerFired 1"]
          a
    by (simp add: tracking_axiom_def)
qed

subsection \<open>The stored totals never go down while the storage answers in time\<close>















































subsection \<open>The final flush of stopTracking\<close>

text \<open>
  \<open>stopTracking\<close> calls \<open>updateTime\<close> and does not wait for it: the call suspends at
  its storage read, \<open>stopTracking\<close> sets \<open>currentSite\<close> to \<^verbatim>\<open>null\<close>, and only then does
  the continuation run and read \<open>currentSite\<close>. So whatever the state, nothing that
  \<open>stopTracking\<close> starts is ever stored.
\<close>

lemma stopTracking_never_persists:
  "timeData (settle (stopTracking st)) = timeData st"
  by (simp add: timeData_settle_idle currentSite_stopTracking timeData_stopTracking)

lemma ex_stop:
  "stopTracking (tracking_axiom 0 120000) =
     (tracking_axiom 0 120000)\<lparr>intervalId := None, timers := [],
        pending := [AfterGet 120000 2 (timeData (tracking_axiom 0 120000))],
        currentSite := None\<rparr>"
  by (simp add: stopTracking_def tracking_axiom_def Let_def clearInterval_def updateTime_def)

lemma ex_stop_settled:
  "settle (stopTracking (tracking_axiom 0 120000)) =
     (tracking_axiom 0 120000)\<lparr>intervalId := None, timers := [],
        currentSite := None, errors := [TypeError]\<rparr>"
  by (simp add: ex_stop settle_Cons settle_Nil afterGet_None)
     (simp add: tracking_axiom_def)

lemma ex_switch:
  "startTracking (tracking_axiom 0 120000) (Some gmgn_site) =
     (tracking_axiom 0 120000)\<lparr>intervalId := Some 2, timers := [2], nextTimer := 3,
        pending := [AfterGet 120000 2 (timeData (tracking_axiom 0 120000))],
        currentSite := Some gmgn_site, lastUpdateTime := 120000\<rparr>"
proof -
  have "map_option hostname (currentSite (tracking_axiom 0 120000))
          \<noteq> map_option hostname (Some gmgn_site)"
    by (simp add: tracking_axiom_def axiom_site_def gmgn_site_def)
  then show ?thesis
    by (simp add: startTracking_switch ex_stop setInterval_def)
       (simp add: tracking_axiom_def)
qed

lemma ex_switch_settled:
  "settle (startTracking (tracking_axiom 0 120000) (Some gmgn_site)) =
     (tracking_axiom 0 120000)\<lparr>intervalId := Some 2, timers := [2], nextTimer := 3,
        currentSite := Some gmgn_site, lastUpdateTime := 120000,
        timeData := Some (credit (timeData (tracking_axiom 0 120000)) gmgn_site 2)\<rparr>"
  by (simp add: ex_switch settle_Cons settle_Nil afterGet_Some updateTime_afterSet_def)
     (simp add: tracking_axiom_def)

text \<open>
  C2 at a concrete session: axiom.trade with ten minutes stored and two whole minutes
  elapsed since the last flush. After \<open>stopTracking\<close> and its continuations (called
  directly, or by the handler when the browser loses focus) the total of axiom.trade is
  still 10 and the flush has ended in a \<^verbatim>\<open>TypeError\<close>; after a switch to
  gmgn.ai by \<open>startTracking\<close> the two minutes are stored for gmgn.ai, the new site, and
  axiom.trade still has 10.
\<close>

theorem stopTracking_final_flush_lost:
  "currentSite (tracking_axiom 0 120000) = Some axiom_site \<and>
   (clock (tracking_axiom 0 120000) - lastUpdateTime (tracking_axiom 0 120000)) div 60000 = 2 \<and>
   stored_total (timeData (tracking_axiom 0 120000)) ''axiom.trade'' = 10 \<and>
   stored_total (timeData (settle (stopTracking (tracking_axiom 0 120000)))) ''axiom.trade'' = 10 \<and>
   errors (settle (stopTracking (tracking_axiom 0 120000))) = [TypeError] \<and>
   stored_total (timeData (step example_parseURL (tracking_axiom 0 120000) (FocusChanged None)))
      ''axiom.trade'' = 10 \<and>
   stored_total (timeData (settle (startTracking (tracking_axiom 0 120000) (Some gmgn_site))))
      ''axiom.trade'' = 10 \<and>
   stored_total (timeData (settle (startTracking (tracking_axiom 0 120000) (Some gmgn_site))))
      ''gmgn.ai'' = 2"
  by (simp add: step_def onFocusChanged_def ex_stop_settled ex_switch_settled)
     (simp add: tracking_axiom_def stored_total_def credit_def timeData_or_empty_def gmgn_site_def
        js_add_exact)

subsection \<open>The updateEnabledPlatforms message\<close>









end
